theory Spec2Isabelle
  imports Main "HOL-Library.Sublist"
begin

section \<open>The objects read by \<open>pkg/util/types/pvc.go\<close>\<close>

text \<open>
  The file under verification is a query layer over Kubernetes objects held in a
  \<open>cache.Store\<close>. The object types come from \<open>k8s.io/api\<close> and
  \<open>kubevirt.io/client-go\<close>; only the fields the file reads are kept.

  Go pointers to optional fields (\<open>*string\<close>, \<open>*PersistentVolumeMode\<close>,
  \<open>*DataVolumeSource\<close>, ...) are \<open>option\<close> values: \<open>None\<close> is \<open>nil\<close>.
  The pointers the functions receive as arguments (\<open>*PersistentVolumeClaim\<close>,
  \<open>*Volume\<close>) are dereferenced by the source without a check, so the functions
  are modelled on the object pointed to.
\<close>

subsection \<open>Enumerations declared as Go string types\<close>

type_synonym PersistentVolumeMode = string

definition PersistentVolumeBlock :: PersistentVolumeMode where
  "PersistentVolumeBlock = ''Block''"

definition PersistentVolumeFilesystem :: PersistentVolumeMode where
  "PersistentVolumeFilesystem = ''Filesystem''"

type_synonym PersistentVolumeAccessMode = string

definition ReadWriteOnce :: PersistentVolumeAccessMode where
  "ReadWriteOnce = ''ReadWriteOnce''"

definition ReadOnlyMany :: PersistentVolumeAccessMode where
  "ReadOnlyMany = ''ReadOnlyMany''"

definition ReadWriteMany :: PersistentVolumeAccessMode where
  "ReadWriteMany = ''ReadWriteMany''"

type_synonym VolumeBindingMode = string

definition VolumeBindingImmediate :: VolumeBindingMode where
  "VolumeBindingImmediate = ''Immediate''"

definition VolumeBindingWaitForFirstConsumer :: VolumeBindingMode where
  "VolumeBindingWaitForFirstConsumer = ''WaitForFirstConsumer''"

subsection \<open>Claims, storage classes and volumes\<close>

text \<open>
  A Go \<open>map[string]string\<close> is kept as the list of its entries, in the order in
  which a \<open>range\<close> loop happens to visit them; the keys of a map are distinct.
  Indexing a map with a missing key gives the zero value, the empty string.
\<close>

type_synonym string_map = "(string \<times> string) list"

definition index_map :: "string_map \<Rightarrow> string \<Rightarrow> string" where
  "index_map m k = (case map_of m k of None \<Rightarrow> [] | Some v \<Rightarrow> v)"

record ObjectMeta =
  Name :: string
  Namespace :: string
  Annotations :: string_map

record PersistentVolumeClaimSpec =
  AccessModes :: "PersistentVolumeAccessMode list"
  StorageClassName :: "string option"
  VolumeMode :: "PersistentVolumeMode option"

record PersistentVolumeClaim = ObjectMeta +
  Spec :: PersistentVolumeClaimSpec

record StorageClass = ObjectMeta +
  VolumeBindingMode :: "VolumeBindingMode option"

record DataVolumeSource =
  DataVolumeName :: string

record PersistentVolumeClaimVolumeSource =
  ClaimName :: string

text \<open>
  A \<open>virtv1.Volume\<close> embeds a \<open>VolumeSource\<close>, a struct of pointers of which at
  most one is meant to be set. The file reads two of them; a volume of any other kind
  has both \<open>None\<close>.
\<close>

record Volume =
  VolumeName :: string
  DataVolume :: "DataVolumeSource option"
  PersistentVolumeClaim :: "PersistentVolumeClaimVolumeSource option"

subsection \<open>The store\<close>

text \<open>
  A store holds values of type \<open>interface{}\<close>: the nil interface, a pointer to a
  claim, a pointer to a storage class, or a value of some other type, of which only the
  type's name is kept. A pointer held by a store points to an object.
\<close>

datatype object =
  nil_object
  | PersistentVolumeClaim_ptr PersistentVolumeClaim
  | StorageClass_ptr StorageClass
  | other_object string

text \<open>
  An \<open>error\<close> is either one the store returned, opaque to this file, or one built by
  \<open>fmt.Errorf\<close>, kept as the format string with its arguments.
\<close>

datatype error =
  StoreError string
  | Errorf string "fmt_arg list"
and fmt_arg =
  Str string
  | Obj object
  | Err error

text \<open>
  \<open>cache.Store\<close> is an interface; the file calls two of its methods.
  \<open>GetByKey\<close> returns \<open>(item, exists, err)\<close>, with \<open>None\<close> for a nil error.
\<close>

record Store =
  GetByKey :: "string \<Rightarrow> object \<times> bool \<times> error option"
  List :: "object list"

text \<open>Every function that reads the store also returns the calls it made, in order.\<close>

datatype store_call = GetByKey_call string | List_call

section \<open>The functions of \<open>pvc.go\<close>\<close>

definition isPVCBlock :: "PersistentVolumeClaim \<Rightarrow> bool" where
  "isPVCBlock pvc =
     (VolumeMode (Spec pvc) \<noteq> None \<and> the (VolumeMode (Spec pvc)) = PersistentVolumeBlock)"

definition IsPVCBlockFromStore ::
  "Store \<Rightarrow> string \<Rightarrow> string \<Rightarrow>
     (PersistentVolumeClaim option \<times> bool \<times> bool \<times> error option) \<times> store_call list" where
  "IsPVCBlockFromStore store namespace claimName =
     (let key = namespace @ ''/'' @ claimName;
          calls = [GetByKey_call key]
      in case GetByKey store key of (obj, exists, err) \<Rightarrow>
        (if err \<noteq> None \<or> \<not> exists then ((None, exists, False, err), calls)
         else (case obj of
             PersistentVolumeClaim_ptr pvc \<Rightarrow> ((Some pvc, True, isPVCBlock pvc, None), calls)
           | _ \<Rightarrow> ((None, False, False, Some (Errorf ''this is not a PVC! %v'' [Obj obj])),
                   calls))))"

fun HasSharedAccessMode :: "PersistentVolumeAccessMode list \<Rightarrow> bool" where
  "HasSharedAccessMode [] = False"
| "HasSharedAccessMode (accessMode # rest) =
     (if accessMode = ReadWriteMany then True else HasSharedAccessMode rest)"

text \<open>
  \<open>strings.Contains s substr\<close> of the Go library: \<open>substr\<close> occurs in \<open>s\<close> as a
  contiguous block. The scan tries every start position from the left.
\<close>

fun Contains :: "string \<Rightarrow> string \<Rightarrow> bool" where
  "Contains [] substr = (substr = [])"
| "Contains (c # cs) substr = (prefix substr (c # cs) \<or> Contains cs substr)"

text \<open>The loop of \<open>IsPreallocated\<close> over the entries of the annotations map.\<close>

fun IsPreallocated :: "string_map \<Rightarrow> bool" where
  "IsPreallocated [] = False"
| "IsPreallocated ((a, val) # rest) =
     (if Contains a ''/storage.preallocation'' \<and> val = ''true'' then True
      else if Contains a ''/storage.thick-provisioned'' \<and> val = ''true'' then True
      else IsPreallocated rest)"

definition PVCNameFromVirtVolume :: "Volume \<Rightarrow> string" where
  "PVCNameFromVirtVolume volume =
     (if DataVolume volume \<noteq> None then DataVolumeName (the (DataVolume volume))
      else if PersistentVolumeClaim volume \<noteq> None
        then ClaimName (the (PersistentVolumeClaim volume))
      else [])"




definition IsStaticallyProvisioned :: "PersistentVolumeClaim \<Rightarrow> bool" where
  "IsStaticallyProvisioned pvc =
     (StorageClassName (Spec pvc) \<noteq> None \<and> the (StorageClassName (Spec pvc)) = [])"

definition IsDynamicallyProvisioned :: "PersistentVolumeClaim \<Rightarrow> bool" where
  "IsDynamicallyProvisioned pvc =
     (StorageClassName (Spec pvc) = None \<or> the (StorageClassName (Spec pvc)) \<noteq> [])"

text \<open>The loop of \<open>getDefaultStorageClass\<close> over the objects the store lists.\<close>

fun getDefaultStorageClass_loop :: "object list \<Rightarrow> StorageClass option \<times> error option" where
  "getDefaultStorageClass_loop [] = (None, None)"
| "getDefaultStorageClass_loop (obj # rest) =
     (case obj of
        StorageClass_ptr sc \<Rightarrow>
          (if index_map (Annotations sc) ''storageclass.kubernetes.io/is-default-class'' = ''true''
           then (Some sc, None)
           else getDefaultStorageClass_loop rest)
      | _ \<Rightarrow>
          (None,
           Some (Errorf ''failed converting object to a StorageClass: object is of type %T''
                   [Obj obj])))"

definition getDefaultStorageClass ::
  "Store \<Rightarrow> (StorageClass option \<times> error option) \<times> store_call list" where
  "getDefaultStorageClass storageClassStore =
     (getDefaultStorageClass_loop (List storageClassStore), [List_call])"

definition GetStorageClass ::
  "PersistentVolumeClaim \<Rightarrow> Store \<Rightarrow> (StorageClass option \<times> error option) \<times> store_call list" where
  "GetStorageClass pvc storageClassStore =
     (if IsStaticallyProvisioned pvc then ((None, None), [])
      else if StorageClassName (Spec pvc) = None then getDefaultStorageClass storageClassStore
      else
        (let name = the (StorageClassName (Spec pvc));
             calls = [GetByKey_call name]
         in case GetByKey storageClassStore name of (obj, exists, err) \<Rightarrow>
           (if err \<noteq> None then ((None, err), calls)
            else if \<not> exists then
              ((None, Some (Errorf ''StorageClass %s does not exists'' [Str name])), calls)
            else (case obj of
                StorageClass_ptr sc \<Rightarrow> ((Some sc, None), calls)
              | _ \<Rightarrow>
                  ((None,
                    Some (Errorf ''failed converting %s to a StorageClass: object is of type %T''
                            [Str name, Obj obj])),
                   calls)))))"

definition IsWaitForFirstConsumer ::
  "PersistentVolumeClaim \<Rightarrow> Store \<Rightarrow> (bool \<times> error option) \<times> store_call list" where
  "IsWaitForFirstConsumer pvc storageClassStore =
     (case GetStorageClass pvc storageClassStore of ((sc, err), calls) \<Rightarrow>
        (if err \<noteq> None then ((False, err), calls)
         else if sc = None then ((False, None), calls)
         else
           (let isWFFC =
                  (VolumeBindingMode (the sc) \<noteq> None \<and>
                   the (VolumeBindingMode (the sc)) = VolumeBindingWaitForFirstConsumer)
            in ((isWFFC, None), calls))))"

section \<open>Vocabulary of the statements\<close>

text \<open>
  A storage class is marked as the cluster default when its annotations bind the
  default-class key to the string \<open>true\<close>.
\<close>

definition marked_default :: "StorageClass \<Rightarrow> bool" where
  "marked_default sc =
     (map_of (Annotations sc) ''storageclass.kubernetes.io/is-default-class'' = Some ''true'')"




subsection \<open>Objects for the worked examples\<close>

definition example_claim ::
  "string \<Rightarrow> string option \<Rightarrow> PersistentVolumeMode option \<Rightarrow> PersistentVolumeClaim" where
  "example_claim name scn vm =
     \<lparr>Name = name, Namespace = ''ns'', Annotations = [],
      Spec = \<lparr>AccessModes = [ReadWriteOnce], StorageClassName = scn, VolumeMode = vm\<rparr>\<rparr>"

definition example_class ::
  "string \<Rightarrow> string_map \<Rightarrow> VolumeBindingMode option \<Rightarrow> StorageClass" where
  "example_class name ann mode =
     \<lparr>Name = name, Namespace = [], Annotations = ann, VolumeBindingMode = mode\<rparr>"




text \<open>
  A claim store of namespace \<open>ns\<close>: three claims, an object of another type under
  \<open>ns/class\<close>, and a key whose lookup fails in the store itself.
\<close>

definition claim_store :: Store where
  "claim_store =
     \<lparr>GetByKey = (\<lambda>key.
        if key = ''ns/c1'' then
          (PersistentVolumeClaim_ptr
             (example_claim ''c1'' None (Some PersistentVolumeBlock)), True, None)
        else if key = ''ns/c2'' then
          (PersistentVolumeClaim_ptr
             (example_claim ''c2'' (Some ''fast'') (Some PersistentVolumeFilesystem)), True, None)
        else if key = ''ns/c3'' then
          (PersistentVolumeClaim_ptr (example_claim ''c3'' (Some []) None), True, None)
        else if key = ''ns/class'' then
          (StorageClass_ptr (example_class ''class'' [] None), True, None)
        else if key = ''ns/down'' then
          (nil_object, False, Some (StoreError ''cache unavailable''))
        else (nil_object, False, None)),
      List = []\<rparr>"

text \<open>
  A class store: the class \<open>fast\<close> binds on first consumer, \<open>slow\<close> binds
  immediately; \<open>standard\<close> is listed second and is the first one marked as default.
\<close>

definition class_store :: Store where
  "class_store =
     \<lparr>GetByKey = (\<lambda>key.
        if key = ''fast'' then
          (StorageClass_ptr
             (example_class ''fast'' [] (Some VolumeBindingWaitForFirstConsumer)), True, None)
        else if key = ''slow'' then
          (StorageClass_ptr (example_class ''slow'' [] (Some VolumeBindingImmediate)), True, None)
        else if key = ''down'' then
          (nil_object, False, Some (StoreError ''cache unavailable''))
        else (nil_object, False, None)),
      List =
        [StorageClass_ptr
           (example_class ''slow''
              [(''storageclass.kubernetes.io/is-default-class'', ''false'')]
              (Some VolumeBindingImmediate)),
         StorageClass_ptr
           (example_class ''standard''
              [(''storageclass.kubernetes.io/is-default-class'', ''true'')]
              (Some VolumeBindingWaitForFirstConsumer)),
         StorageClass_ptr
           (example_class ''extra''
              [(''storageclass.kubernetes.io/is-default-class'', ''true'')] None)]\<rparr>"

text \<open>A class store in which no class is marked as default.\<close>

definition unmarked_store :: Store where
  "unmarked_store =
     \<lparr>GetByKey = (\<lambda>key. (nil_object, False, None)),
      List =
        [StorageClass_ptr
           (example_class ''slow''
              [(''storageclass.kubernetes.io/is-default-class'', ''false'')]
              (Some VolumeBindingImmediate)),
         StorageClass_ptr (example_class ''plain'' [] None)]\<rparr>"

section \<open>Auxiliary facts\<close>

lemma Contains_sublist: "Contains s substr \<longleftrightarrow> sublist substr s"
  by (induction s) (simp_all add: sublist_Cons_right)

lemma index_map_true: "index_map m k = ''true'' \<longleftrightarrow> map_of m k = Some ''true''"
  by (simp add: index_map_def split: option.splits)

lemma IsPreallocated_entries:
  "IsPreallocated annotations \<longleftrightarrow>
     (\<exists>(a, v) \<in> set annotations.
        (Contains a ''/storage.preallocation'' \<or> Contains a ''/storage.thick-provisioned'') \<and>
        v = ''true'')"
  by (induction annotations rule: IsPreallocated.induct) auto

lemma HasSharedAccessMode_member:
  "HasSharedAccessMode accessModes \<longleftrightarrow> ReadWriteMany \<in> set accessModes"
  by (induction accessModes) auto

subsection \<open>The scan for the default class\<close>

lemma default_loop_unmarked:
  "\<forall>obj \<in> set objs. \<exists>sc. obj = StorageClass_ptr sc \<and> \<not> marked_default sc \<Longrightarrow>
     getDefaultStorageClass_loop objs = (None, None)"
  by (induction objs) (auto simp: marked_default_def index_map_true)

lemma default_loop_first_marked:
  "\<forall>obj \<in> set pre. \<exists>sc. obj = StorageClass_ptr sc \<and> \<not> marked_default sc \<Longrightarrow>
   marked_default sc \<Longrightarrow>
     getDefaultStorageClass_loop (pre @ StorageClass_ptr sc # post) = (Some sc, None)"
  by (induction pre) (auto simp: marked_default_def index_map_true)

lemma default_loop_type_mismatch:
  "\<forall>obj \<in> set pre. \<exists>sc. obj = StorageClass_ptr sc \<and> \<not> marked_default sc \<Longrightarrow>
   \<forall>sc. obj \<noteq> StorageClass_ptr sc \<Longrightarrow>
     getDefaultStorageClass_loop (pre @ obj # post) =
       (None, Some (Errorf ''failed converting object to a StorageClass: object is of type %T''
                   [Obj obj]))"
  by (induction pre) (auto simp: marked_default_def index_map_true split: object.splits)

subsection \<open>One round of the loop over the volumes\<close>








subsection \<open>The worked examples, evaluated\<close>

lemma claim_store_lookups:
  "GetByKey claim_store ''ns/c1'' =
     (PersistentVolumeClaim_ptr (example_claim ''c1'' None (Some PersistentVolumeBlock)),
      True, None)"
  "GetByKey claim_store ''ns/c2'' =
     (PersistentVolumeClaim_ptr
        (example_claim ''c2'' (Some ''fast'') (Some PersistentVolumeFilesystem)), True, None)"
  "GetByKey claim_store ''ns/c3'' =
     (PersistentVolumeClaim_ptr (example_claim ''c3'' (Some []) None), True, None)"
  "GetByKey claim_store ''ns/c4'' = (nil_object, False, None)"
  "GetByKey claim_store ''ns/class'' =
     (StorageClass_ptr (example_class ''class'' [] None), True, None)"
  "GetByKey claim_store ''ns/down'' =
     (nil_object, False, Some (StoreError ''cache unavailable''))"
  by (simp_all add: claim_store_def)


section \<open>The claims\<close>

subsection \<open>Static and dynamic provisioning\<close>

text \<open>
  Claim C6. For every claim, \<open>IsStaticallyProvisioned\<close> is true exactly when the
  storage-class-name field is present and is the empty string; it is false when the field
  is absent and when it holds any non-empty name.
\<close>

theorem IsStaticallyProvisioned_iff:
  "(IsStaticallyProvisioned pvc \<longleftrightarrow> StorageClassName (Spec pvc) = Some []) \<and>
   (StorageClassName (Spec pvc) = None \<longrightarrow> \<not> IsStaticallyProvisioned pvc) \<and>
   (\<forall>name. StorageClassName (Spec pvc) = Some name \<and> name \<noteq> [] \<longrightarrow>
      \<not> IsStaticallyProvisioned pvc)"
  by (cases "StorageClassName (Spec pvc)") (simp_all add: IsStaticallyProvisioned_def)

text \<open>The three states of the field, on example claims.\<close>

theorem IsStaticallyProvisioned_iff_witness:
  "IsStaticallyProvisioned (example_claim ''c3'' (Some []) None) \<and>
   \<not> IsStaticallyProvisioned (example_claim ''c1'' None None) \<and>
   \<not> IsStaticallyProvisioned (example_claim ''c2'' (Some ''fast'') None)"
  using IsStaticallyProvisioned_iff [of "example_claim ''c3'' (Some []) None"]
    IsStaticallyProvisioned_iff [of "example_claim ''c1'' None None"]
    IsStaticallyProvisioned_iff [of "example_claim ''c2'' (Some ''fast'') None"]
  by (simp add: example_claim_def)

text \<open>
  Claim C1, as amended. The claim says that for some claim \<open>IsDynamicallyProvisioned\<close>
  differs from the negation of \<open>IsStaticallyProvisioned\<close>. It differs for none: for
  every claim, \<open>IsDynamicallyProvisioned\<close> is the negation of
  \<open>IsStaticallyProvisioned\<close>. An absent field is dynamic and not static, a present
  empty one is static and not dynamic, a present non-empty one is dynamic and not static.
\<close>

theorem IsDynamicallyProvisioned_negates_static:
  "IsDynamicallyProvisioned pvc = (\<not> IsStaticallyProvisioned pvc)"
  by (simp add: IsDynamicallyProvisioned_def IsStaticallyProvisioned_def)

theorem IsDynamicallyProvisioned_negates_static_witness:
  "IsDynamicallyProvisioned (example_claim ''c1'' None None) \<and>
   \<not> IsStaticallyProvisioned (example_claim ''c1'' None None) \<and>
   \<not> IsDynamicallyProvisioned (example_claim ''c3'' (Some []) None) \<and>
   IsStaticallyProvisioned (example_claim ''c3'' (Some []) None)"
  using IsDynamicallyProvisioned_negates_static [of "example_claim ''c1'' None None"]
    IsDynamicallyProvisioned_negates_static [of "example_claim ''c3'' (Some []) None"]
  by (simp add: example_claim_def IsStaticallyProvisioned_def)

text \<open>No claim separates the two predicates: the claim as stated is false.\<close>

theorem IsDynamicallyProvisioned_never_differs:
  "\<not> (\<exists>pvc. IsDynamicallyProvisioned pvc \<noteq> (\<not> IsStaticallyProvisioned pvc))"
  by (simp add: IsDynamicallyProvisioned_def IsStaticallyProvisioned_def)

subsection \<open>The storage class of a claim\<close>

text \<open>
  Claim C7. For every claim whose storage-class-name field is present and empty, and for
  every class store, \<open>GetStorageClass\<close> returns no class and no error. The result
  is the same for every store, and no call to the store is made.
\<close>

theorem GetStorageClass_static:
  "StorageClassName (Spec pvc) = Some [] \<Longrightarrow>
     GetStorageClass pvc storageClassStore = ((None, None), [])"
  by (simp add: GetStorageClass_def IsStaticallyProvisioned_def)

theorem GetStorageClass_static_witness:
  "GetStorageClass (example_claim ''c3'' (Some []) None) class_store = ((None, None), []) \<and>
   GetStorageClass (example_claim ''c3'' (Some []) None) unmarked_store = ((None, None), [])"
proof -
  have static: "StorageClassName (Spec (example_claim ''c3'' (Some []) None)) = Some []"
    by (simp add: example_claim_def)
  show ?thesis
    using GetStorageClass_static [OF static, of class_store]
      GetStorageClass_static [OF static, of unmarked_store]
    by simp
qed

text \<open>
  Claim C4. For every class store that lists only storage classes: when no listed class
  binds the default-class annotation key to \<open>true\<close>, \<open>getDefaultStorageClass\<close>
  returns no class and no error; when some listed class does, it returns, with no error,
  the first such class of the list. Either way the store is listed once.
\<close>

theorem getDefaultStorageClass_first_marked:
  assumes "\<forall>obj \<in> set (List store). \<exists>sc. obj = StorageClass_ptr sc"
  shows "(\<not> (\<exists>sc. StorageClass_ptr sc \<in> set (List store) \<and> marked_default sc) \<longrightarrow>
            getDefaultStorageClass store = ((None, None), [List_call])) \<and>
         ((\<exists>sc. StorageClass_ptr sc \<in> set (List store) \<and> marked_default sc) \<longrightarrow>
            (\<exists>pre sc post. List store = pre @ StorageClass_ptr sc # post \<and>
               marked_default sc \<and>
               (\<forall>sc'. StorageClass_ptr sc' \<in> set pre \<longrightarrow> \<not> marked_default sc') \<and>
               getDefaultStorageClass store = ((Some sc, None), [List_call])))"
proof (intro conjI impI)
  assume none: "\<not> (\<exists>sc. StorageClass_ptr sc \<in> set (List store) \<and> marked_default sc)"
  with assms have
    "\<forall>obj \<in> set (List store). \<exists>sc. obj = StorageClass_ptr sc \<and> \<not> marked_default sc"
    by metis
  then show "getDefaultStorageClass store = ((None, None), [List_call])"
    by (simp add: getDefaultStorageClass_def default_loop_unmarked)
next
  let ?P = "\<lambda>obj. \<exists>sc. obj = StorageClass_ptr sc \<and> marked_default sc"
  assume "\<exists>sc. StorageClass_ptr sc \<in> set (List store) \<and> marked_default sc"
  then have "\<exists>obj \<in> set (List store). ?P obj" by blast
  then have "\<exists>pre obj post.
      List store = pre @ obj # post \<and> ?P obj \<and> (\<forall>x \<in> set pre. \<not> ?P x)"
    by (rule split_list_first_prop)
  then obtain pre obj post where
    split: "List store = pre @ obj # post" and obj: "?P obj" and pre: "\<forall>x \<in> set pre. \<not> ?P x"
    by blast
  from obj obtain sc where sc: "obj = StorageClass_ptr sc" "marked_default sc" by blast
  have unmarked:
    "\<forall>x \<in> set pre. \<exists>sc'. x = StorageClass_ptr sc' \<and> \<not> marked_default sc'"
  proof
    fix x
    assume x: "x \<in> set pre"
    with split have "x \<in> set (List store)" by simp
    with assms obtain sc' where "x = StorageClass_ptr sc'" by blast
    moreover from pre x have "\<not> ?P x" by blast
    ultimately show "\<exists>sc'. x = StorageClass_ptr sc' \<and> \<not> marked_default sc'" by blast
  qed
  have "getDefaultStorageClass store = ((Some sc, None), [List_call])"
    using default_loop_first_marked [OF unmarked sc(2)] split sc(1)
    by (simp add: getDefaultStorageClass_def)
  moreover from pre have "\<forall>sc'. StorageClass_ptr sc' \<in> set pre \<longrightarrow> \<not> marked_default sc'"
    by blast
  ultimately show "\<exists>pre sc post. List store = pre @ StorageClass_ptr sc # post \<and>
      marked_default sc \<and>
      (\<forall>sc'. StorageClass_ptr sc' \<in> set pre \<longrightarrow> \<not> marked_default sc') \<and>
      getDefaultStorageClass store = ((Some sc, None), [List_call])"
    using split sc by blast
qed

text \<open>
  A store with no marked class gives no default. In \<open>class_store\<close> two classes are
  marked; the one listed first of the two, \<open>standard\<close>, is returned.
\<close>

theorem getDefaultStorageClass_first_marked_witness:
  "getDefaultStorageClass unmarked_store = ((None, None), [List_call]) \<and>
   getDefaultStorageClass class_store =
     ((Some (example_class ''standard''
               [(''storageclass.kubernetes.io/is-default-class'', ''true'')]
               (Some VolumeBindingWaitForFirstConsumer)), None), [List_call])"
proof -
  have typed: "\<forall>obj \<in> set (List unmarked_store). \<exists>sc. obj = StorageClass_ptr sc"
    by (simp add: unmarked_store_def)
  have unmarked:
    "\<not> (\<exists>sc. StorageClass_ptr sc \<in> set (List unmarked_store) \<and> marked_default sc)"
    by (auto simp: unmarked_store_def marked_default_def example_class_def)
  have typed': "\<forall>obj \<in> set (List class_store). \<exists>sc. obj = StorageClass_ptr sc"
    by (simp add: class_store_def)
  let ?std = "example_class ''standard''
               [(''storageclass.kubernetes.io/is-default-class'', ''true'')]
               (Some VolumeBindingWaitForFirstConsumer)"
  have marked: "\<exists>sc. StorageClass_ptr sc \<in> set (List class_store) \<and> marked_default sc"
    by (rule exI [of _ ?std]) (simp add: class_store_def marked_default_def example_class_def)
  from getDefaultStorageClass_first_marked [OF typed] unmarked
  have first: "getDefaultStorageClass unmarked_store = ((None, None), [List_call])"
    by blast
  from getDefaultStorageClass_first_marked [OF typed'] marked
  obtain pre sc post where
    split: "List class_store = pre @ StorageClass_ptr sc # post"
    and sc: "marked_default sc"
    and pre: "\<forall>sc'. StorageClass_ptr sc' \<in> set pre \<longrightarrow> \<not> marked_default sc'"
    and run: "getDefaultStorageClass class_store = ((Some sc, None), [List_call])"
    by blast
  from run have "sc = ?std"
    by (simp add: getDefaultStorageClass_def class_store_def example_class_def index_map_def)
  with run first show ?thesis by simp
qed

text \<open>
  Claim C5. For every claim and class store: an error of \<open>GetStorageClass\<close> is
  returned by \<open>IsWaitForFirstConsumer\<close> as it is, with \<open>false\<close>; when
  \<open>GetStorageClass\<close> returns no class and no error the result is \<open>false\<close> with
  no error; when it returns a class, the result is true exactly when the class's
  volume-binding-mode field is present and is \<open>WaitForFirstConsumer\<close>, with no error.
  The store is called as \<open>GetStorageClass\<close> calls it.
\<close>

theorem IsWaitForFirstConsumer_cases:
  "(\<forall>e. snd (fst (GetStorageClass pvc store)) = Some e \<longrightarrow>
      fst (IsWaitForFirstConsumer pvc store) = (False, Some e)) \<and>
   (fst (GetStorageClass pvc store) = (None, None) \<longrightarrow>
      fst (IsWaitForFirstConsumer pvc store) = (False, None)) \<and>
   (\<forall>sc. fst (GetStorageClass pvc store) = (Some sc, None) \<longrightarrow>
      fst (IsWaitForFirstConsumer pvc store) =
        (VolumeBindingMode sc = Some VolumeBindingWaitForFirstConsumer, None)) \<and>
   snd (IsWaitForFirstConsumer pvc store) = snd (GetStorageClass pvc store)"
  by (cases "GetStorageClass pvc store")
     (auto simp: IsWaitForFirstConsumer_def split: prod.splits)

text \<open>
  In \<open>class_store\<close>: the class \<open>fast\<close> waits for the first consumer, \<open>slow\<close>
  does not, the lookup of \<open>down\<close> fails inside the store and that error comes back
  unchanged; a statically provisioned claim has no class; a claim without a class name
  gets the default class, which waits for the first consumer.
\<close>

theorem IsWaitForFirstConsumer_cases_witness:
  "fst (IsWaitForFirstConsumer (example_claim ''c2'' (Some ''fast'') None) class_store) =
     (True, None) \<and>
   fst (IsWaitForFirstConsumer (example_claim ''c2'' (Some ''slow'') None) class_store) =
     (False, None) \<and>
   fst (IsWaitForFirstConsumer (example_claim ''c2'' (Some ''down'') None) class_store) =
     (False, Some (StoreError ''cache unavailable'')) \<and>
   fst (IsWaitForFirstConsumer (example_claim ''c3'' (Some []) None) class_store) =
     (False, None) \<and>
   fst (IsWaitForFirstConsumer (example_claim ''c1'' None None) class_store) = (True, None)"
proof -
  have fast: "fst (GetStorageClass (example_claim ''c2'' (Some ''fast'') None) class_store) =
      (Some (example_class ''fast'' [] (Some VolumeBindingWaitForFirstConsumer)), None)"
    by (simp add: GetStorageClass_def IsStaticallyProvisioned_def example_claim_def
          class_store_def Let_def)
  have slow: "fst (GetStorageClass (example_claim ''c2'' (Some ''slow'') None) class_store) =
      (Some (example_class ''slow'' [] (Some VolumeBindingImmediate)), None)"
    by (simp add: GetStorageClass_def IsStaticallyProvisioned_def example_claim_def
          class_store_def Let_def)
  have down: "snd (fst (GetStorageClass (example_claim ''c2'' (Some ''down'') None) class_store)) =
      Some (StoreError ''cache unavailable'')"
    by (simp add: GetStorageClass_def IsStaticallyProvisioned_def example_claim_def
          class_store_def Let_def)
  have static: "fst (GetStorageClass (example_claim ''c3'' (Some []) None) class_store) =
      (None, None)"
    by (simp add: GetStorageClass_def IsStaticallyProvisioned_def example_claim_def)
  have default: "fst (GetStorageClass (example_claim ''c1'' None None) class_store) =
      (Some (example_class ''standard''
               [(''storageclass.kubernetes.io/is-default-class'', ''true'')]
               (Some VolumeBindingWaitForFirstConsumer)), None)"
    by (simp add: GetStorageClass_def IsStaticallyProvisioned_def example_claim_def
          getDefaultStorageClass_def class_store_def example_class_def index_map_def)
  have modes:
    "VolumeBindingMode (example_class ''fast'' [] (Some VolumeBindingWaitForFirstConsumer)) =
       Some VolumeBindingWaitForFirstConsumer"
    "VolumeBindingMode (example_class ''slow'' [] (Some VolumeBindingImmediate)) \<noteq>
       Some VolumeBindingWaitForFirstConsumer"
    "VolumeBindingMode (example_class ''standard''
               [(''storageclass.kubernetes.io/is-default-class'', ''true'')]
               (Some VolumeBindingWaitForFirstConsumer)) =
       Some VolumeBindingWaitForFirstConsumer"
    by (simp_all add: example_class_def VolumeBindingImmediate_def
          VolumeBindingWaitForFirstConsumer_def)
  from fast slow down static default modes
    IsWaitForFirstConsumer_cases [of "example_claim ''c2'' (Some ''fast'') None" class_store]
    IsWaitForFirstConsumer_cases [of "example_claim ''c2'' (Some ''slow'') None" class_store]
    IsWaitForFirstConsumer_cases [of "example_claim ''c2'' (Some ''down'') None" class_store]
    IsWaitForFirstConsumer_cases [of "example_claim ''c3'' (Some []) None" class_store]
    IsWaitForFirstConsumer_cases [of "example_claim ''c1'' None None" class_store]
  show ?thesis by simp
qed

subsection \<open>Looking a claim up\<close>

text \<open>
  Claim C3. For every store, namespace and claim name: when the store reports the key
  \<open>namespace/claimName\<close> absent, \<open>IsPVCBlockFromStore\<close> returns \<open>exists\<close> false
  with no error; when the store holds a claim under the key, it returns that claim,
  \<open>exists\<close> true, no error, and \<open>isBlockDevice\<close> true exactly when the claim's
  volume-mode field is present and is \<open>Block\<close>. The store is asked once, for that key.
\<close>

theorem IsPVCBlockFromStore_absent_or_found:
  "(\<forall>obj. GetByKey store (namespace @ ''/'' @ claimName) = (obj, False, None) \<longrightarrow>
      fst (IsPVCBlockFromStore store namespace claimName) = (None, False, False, None)) \<and>
   (\<forall>pvc. GetByKey store (namespace @ ''/'' @ claimName) =
            (PersistentVolumeClaim_ptr pvc, True, None) \<longrightarrow>
      fst (IsPVCBlockFromStore store namespace claimName) =
        (Some pvc, True, VolumeMode (Spec pvc) = Some PersistentVolumeBlock, None)) \<and>
   snd (IsPVCBlockFromStore store namespace claimName) =
     [GetByKey_call (namespace @ ''/'' @ claimName)]"
proof -
  have "isPVCBlock pvc \<longleftrightarrow> VolumeMode (Spec pvc) = Some PersistentVolumeBlock" for pvc
    by (cases "VolumeMode (Spec pvc)") (simp_all add: isPVCBlock_def)
  then show ?thesis
    by (simp add: IsPVCBlockFromStore_def Let_def split: prod.splits object.splits)
qed

text \<open>
  In \<open>claim_store\<close>: \<open>c4\<close> is absent; \<open>c1\<close> has mode \<open>Block\<close>, \<open>c2\<close> has
  mode \<open>Filesystem\<close>, \<open>c3\<close> has no mode.
\<close>

theorem IsPVCBlockFromStore_absent_or_found_witness:
  "fst (IsPVCBlockFromStore claim_store ''ns'' ''c4'') = (None, False, False, None) \<and>
   fst (IsPVCBlockFromStore claim_store ''ns'' ''c1'') =
     (Some (example_claim ''c1'' None (Some PersistentVolumeBlock)), True, True, None) \<and>
   fst (IsPVCBlockFromStore claim_store ''ns'' ''c2'') =
     (Some (example_claim ''c2'' (Some ''fast'') (Some PersistentVolumeFilesystem)),
      True, False, None) \<and>
   fst (IsPVCBlockFromStore claim_store ''ns'' ''c3'') =
     (Some (example_claim ''c3'' (Some []) None), True, False, None)"
proof -
  have modes:
    "VolumeMode (Spec (example_claim ''c1'' None (Some PersistentVolumeBlock))) =
       Some PersistentVolumeBlock"
    "VolumeMode (Spec (example_claim ''c2'' (Some ''fast'') (Some PersistentVolumeFilesystem))) \<noteq>
       Some PersistentVolumeBlock"
    "VolumeMode (Spec (example_claim ''c3'' (Some []) None)) \<noteq> Some PersistentVolumeBlock"
    by (simp_all add: example_claim_def PersistentVolumeBlock_def PersistentVolumeFilesystem_def)
  from modes claim_store_lookups
    IsPVCBlockFromStore_absent_or_found [of claim_store "''ns''" "''c4''"]
    IsPVCBlockFromStore_absent_or_found [of claim_store "''ns''" "''c1''"]
    IsPVCBlockFromStore_absent_or_found [of claim_store "''ns''" "''c2''"]
    IsPVCBlockFromStore_absent_or_found [of claim_store "''ns''" "''c3''"]
  show ?thesis by simp
qed

text \<open>
  Claim C9. For every store, namespace and claim name: when the store holds, under the
  key \<open>namespace/claimName\<close>, an object that is not a claim, \<open>IsPVCBlockFromStore\<close>
  returns \<open>exists\<close> false together with an error, although the store reported the key
  present.
\<close>

theorem IsPVCBlockFromStore_not_a_claim:
  "GetByKey store (namespace @ ''/'' @ claimName) = (obj, True, None) \<Longrightarrow>
   \<forall>pvc. obj \<noteq> PersistentVolumeClaim_ptr pvc \<Longrightarrow>
   fst (IsPVCBlockFromStore store namespace claimName) =
     (None, False, False, Some (Errorf ''this is not a PVC! %v'' [Obj obj]))"
  by (cases obj) (simp_all add: IsPVCBlockFromStore_def)

text \<open>In \<open>claim_store\<close> the key \<open>ns/class\<close> holds a storage class.\<close>

theorem IsPVCBlockFromStore_not_a_claim_witness:
  "fst (GetByKey claim_store ''ns/class'') = StorageClass_ptr (example_class ''class'' [] None) \<and>
   fst (snd (GetByKey claim_store ''ns/class'')) \<and>
   fst (IsPVCBlockFromStore claim_store ''ns'' ''class'') =
     (None, False, False,
      Some (Errorf ''this is not a PVC! %v''
              [Obj (StorageClass_ptr (example_class ''class'' [] None))]))"
proof -
  have held: "GetByKey claim_store (''ns'' @ ''/'' @ ''class'') =
      (StorageClass_ptr (example_class ''class'' [] None), True, None)"
    by (simp add: claim_store_lookups)
  have other: "\<forall>pvc. StorageClass_ptr (example_class ''class'' [] None) \<noteq>
      PersistentVolumeClaim_ptr pvc"
    by simp
  from IsPVCBlockFromStore_not_a_claim [OF held other] held show ?thesis by simp
qed

subsection \<open>From volumes to claims\<close>

text \<open>
  Claim C10. For every volume in which both the DataVolume reference and the claim
  reference are set, \<open>PVCNameFromVirtVolume\<close> returns the name of the DataVolume.
\<close>

theorem PVCNameFromVirtVolume_DataVolume_first:
  "DataVolume volume = Some dv \<Longrightarrow> PersistentVolumeClaim volume = Some pc \<Longrightarrow>
     PVCNameFromVirtVolume volume = DataVolumeName dv"
  by (simp add: PVCNameFromVirtVolume_def)

theorem PVCNameFromVirtVolume_DataVolume_first_witness:
  "PVCNameFromVirtVolume
     \<lparr>VolumeName = ''disk'', DataVolume = Some \<lparr>DataVolumeName = ''dv1''\<rparr>,
      PersistentVolumeClaim = Some \<lparr>ClaimName = ''c1''\<rparr>\<rparr> = ''dv1''"
  using PVCNameFromVirtVolume_DataVolume_first
    [of "\<lparr>VolumeName = ''disk'', DataVolume = Some \<lparr>DataVolumeName = ''dv1''\<rparr>,
          PersistentVolumeClaim = Some \<lparr>ClaimName = ''c1''\<rparr>\<rparr>"
        "\<lparr>DataVolumeName = ''dv1''\<rparr>" "\<lparr>ClaimName = ''c1''\<rparr>"]
  by simp




subsection \<open>Preallocation\<close>

text \<open>
  Claim C8. For every annotations map, \<open>IsPreallocated\<close> is true exactly when some
  key contains \<open>/storage.preallocation\<close> or \<open>/storage.thick-provisioned\<close> as a
  substring and is bound to the string \<open>true\<close>. In particular it is true when the key
  \<open>foo.example.com/storage.preallocation\<close> is bound to \<open>true\<close>, false when every
  key that contains one of the two strings is bound to \<open>false\<close>, and false when no
  key contains either of them. The suffix the claim speaks of is the string the key is
  searched for, as in its first clause.
\<close>

theorem IsPreallocated_iff_substring:
  "(IsPreallocated annotations \<longleftrightarrow>
     (\<exists>(a, v) \<in> set annotations.
        (sublist ''/storage.preallocation'' a \<or> sublist ''/storage.thick-provisioned'' a) \<and>
        v = ''true'')) \<and>
   ((''foo.example.com/storage.preallocation'', ''true'') \<in> set annotations \<longrightarrow>
      IsPreallocated annotations) \<and>
   ((\<forall>(a, v) \<in> set annotations.
        sublist ''/storage.preallocation'' a \<or> sublist ''/storage.thick-provisioned'' a \<longrightarrow>
        v = ''false'') \<longrightarrow> \<not> IsPreallocated annotations) \<and>
   ((\<forall>(a, v) \<in> set annotations.
        \<not> sublist ''/storage.preallocation'' a \<and>
        \<not> sublist ''/storage.thick-provisioned'' a) \<longrightarrow>
      \<not> IsPreallocated annotations)"
proof -
  have key: "sublist ''/storage.preallocation'' ''foo.example.com/storage.preallocation''"
    using sublist_append_leftI [of "''/storage.preallocation''" "''foo.example.com''"] by simp
  have iff: "IsPreallocated annotations \<longleftrightarrow>
     (\<exists>(a, v) \<in> set annotations.
        (sublist ''/storage.preallocation'' a \<or> sublist ''/storage.thick-provisioned'' a) \<and>
        v = ''true'')"
    unfolding IsPreallocated_entries Contains_sublist ..
  show ?thesis
    unfolding iff using key by fastforce
qed

text \<open>
  The key of the claim bound to \<open>true\<close>, among other entries; the same key bound to
  \<open>false\<close>; a map without a matching key.
\<close>

theorem IsPreallocated_iff_substring_witness:
  "IsPreallocated
     [(''owner'', ''true''), (''foo.example.com/storage.preallocation'', ''true'')] \<and>
   \<not> IsPreallocated [(''foo.example.com/storage.preallocation'', ''false'')] \<and>
   \<not> IsPreallocated [(''owner'', ''true'')]"
proof -
  have no: "\<not> sublist ''/storage.thick-provisioned'' ''foo.example.com/storage.preallocation''"
    "\<not> sublist ''/storage.preallocation'' ''owner''"
    "\<not> sublist ''/storage.thick-provisioned'' ''owner''"
    unfolding Contains_sublist [symmetric] by simp_all
  from no
    IsPreallocated_iff_substring
      [of "[(''owner'', ''true''), (''foo.example.com/storage.preallocation'', ''true'')]"]
    IsPreallocated_iff_substring [of "[(''foo.example.com/storage.preallocation'', ''false'')]"]
    IsPreallocated_iff_substring [of "[(''owner'', ''true'')]"]
  show ?thesis by simp
qed

text \<open>
  The match is on substrings, as \<open>strings.Contains\<close> tests it: a key that carries
  \<open>/storage.preallocation\<close> before further characters matches as well.
\<close>

lemma IsPreallocated_inner_match:
  "IsPreallocated [(''foo.example.com/storage.preallocation.bak'', ''true'')] \<and>
   \<not> suffix ''/storage.preallocation'' ''foo.example.com/storage.preallocation.bak''"
  by (simp add: suffix_def)

end
